theory Spec2Isabelle
  imports Main "HOL-Library.Word" "HOL-Library.Multiset"
begin

unbundle bit_operations_syntax

section \<open>Email open tracker (server.py): the tables\<close>

text \<open>
  The four SQLite tables of \<open>init_db\<close>, one record per row type. A table is the list of
  its rows in insertion (rowid) order. Timestamps (\<open>CURRENT_TIMESTAMP\<close>) are natural
  numbers read from the clock by the caller of a handler; SQLite compares its
  fixed-width timestamp texts in chronological order, which is the order of the numbers.
  The two \<open>AUTOINCREMENT\<close> keys are drawn from a counter kept with the table (SQLite's
  \<open>sqlite_sequence\<close>): a new row gets the counter plus one, so a key is never reused,
  also after a delete. SQLite does not enforce the \<open>FOREIGN KEY\<close> clauses unless asked to
  (the program never asks), so the model has no foreign-key check.
\<close>

record email =
  e_id :: string
  recipient :: string
  subject :: string
  e_created_at :: nat

record open_row =
  o_id :: nat
  o_email_id :: string
  opened_at :: nat
  o_ip_address :: "string option"
  o_user_agent :: string
  o_method :: string

record link =
  l_id :: string
  l_email_id :: string
  original_url :: string
  label :: "string option"
  l_created_at :: nat

record click =
  c_id :: nat
  c_link_id :: string
  c_email_id :: string
  clicked_at :: nat
  c_ip_address :: "string option"
  c_user_agent :: string

record store =
  emails :: "email list"
  opens :: "open_row list"
  links :: "link list"
  clicks :: "click list"
  opens_seq :: nat
  clicks_seq :: nat

definition empty_store :: store where
  "empty_store = \<lparr>emails = [], opens = [], links = [], clicks = [], opens_seq = 0, clicks_seq = 0\<rparr>"

subsection \<open>Errors, requests and responses\<close>

text \<open>
  An exception that leaves a handler is a value. \<open>HTTPException c\<close> is what \<open>abort(c)\<close>
  raises, and what \<open>request.json\<close> raises on a body that it cannot read (Flask answers
  with status \<open>c\<close>). Flask answers every other uncaught exception with status 500:
  \<open>IntegrityError\<close> is sqlite3's error on a duplicate primary key or a NULL in a
  \<open>NOT NULL\<close> column, \<open>TypeError\<close> is Python's error on a call with a keyword the callee
  does not have, \<open>AttributeError\<close> its error on \<open>data.get\<close> where \<open>data\<close> is no dict, and
  the last three are what binding a parameter of a statement raises: \<open>BindingError\<close> for
  a list or a dict (sqlite3's ProgrammingError, InterfaceError before Python 3.11),
  \<open>UnicodeEncodeError\<close> for a str that has no UTF-8 encoding, \<open>OverflowError\<close> for an int
  that does not fit 64 bits.
\<close>

datatype error = HTTPException nat | IntegrityError | TypeError string | AttributeError
  | BindingError | UnicodeEncodeError | OverflowError

text \<open>
  The values of \<open>json.loads\<close> and of \<open>jsonify\<close>. A str is its UTF-8 bytes; a str with a
  lone surrogate, which JSON can write (\<open>"\ud800"\<close>) and UTF-8 cannot, is \<open>JStrU\<close> of its
  code points. A float is known by the two things the program can see of it: whether it
  counts as true (it is not zero), and the text that SQLite stores for it in a column of
  type TEXT, which is none for NaN (SQLite stores NULL). \<open>JObj\<close> is a dict, one pair for
  each key.
\<close>

datatype pyfloat = PyFloat (fl_nonzero: bool) (fl_text: "string option")

datatype json = JNull | JBool bool | JInt int | JFloat pyfloat | JStr string
  | JStrU "nat list" | JArr "json list" | JObj "(string \<times> json) list"

datatype body = Bytes "8 word list" | Json json | Html

record response =
  status :: nat
  mimetype :: string
  resp_headers :: "(string \<times> string) list"
  body :: body

text \<open>
  What a handler reads of the Flask request: the headers, the peer address (which may be
  absent), the host URL, and \<open>request.json\<close>. Reading \<open>request.json\<close> either raises (a
  body that is no JSON text is answered with 400; a request whose content type is not
  JSON with 415, or 400, by the release of Flask) or gives the parsed value, which is
  any JSON value (\<open>None\<close>, that is \<open>JNull\<close>, also where an old release of Flask gives
  \<open>None\<close> for a content type that is not JSON).
\<close>

record request =
  req_headers :: "(string \<times> string) list"
  remote_addr :: "string option"
  host_url :: string
  req_json :: "error + json"

definition client_ip :: "request \<Rightarrow> string option" where
  \<comment> \<open>\<open>request.headers.get("X-Forwarded-For", request.remote_addr)\<close>\<close>
  "client_ip req =
     (case map_of (req_headers req) ''X-Forwarded-For'' of
        Some v \<Rightarrow> Some v
      | None \<Rightarrow> remote_addr req)"

definition user_agent_of :: "request \<Rightarrow> string" where
  \<comment> \<open>\<open>request.headers.get("User-Agent", "")\<close>\<close>
  "user_agent_of req =
     (case map_of (req_headers req) ''User-Agent'' of Some v \<Rightarrow> v | None \<Rightarrow> [])"

fun data_get :: "json \<Rightarrow> string \<Rightarrow> json \<Rightarrow> error + json" where
  \<comment> \<open>\<open>data.get(key, default)\<close>: only a dict has the method\<close>
  "data_get (JObj d) k dflt = Inr (case map_of d k of Some v \<Rightarrow> v | None \<Rightarrow> dflt)"
| "data_get _ k dflt = Inl AttributeError"

fun truthy :: "json \<Rightarrow> bool" where
  \<comment> \<open>Python's truth value, as \<open>not v\<close> tests it\<close>
  "truthy JNull = False"
| "truthy (JBool b) = b"
| "truthy (JInt n) = (n \<noteq> 0)"
| "truthy (JFloat f) = fl_nonzero f"
| "truthy (JStr x) = (x \<noteq> [])"
| "truthy (JStrU x) = (x \<noteq> [])"
| "truthy (JArr xs) = (xs \<noteq> [])"
| "truthy (JObj d) = (d \<noteq> [])"

function nat_text :: "int \<Rightarrow> string" where
  \<comment> \<open>the decimal digits of a number that is not negative\<close>
  "nat_text n =
     (if n < 10 then [''0123456789'' ! nat (n mod 10)]
      else nat_text (n div 10) @ [''0123456789'' ! nat (n mod 10)])"
  by pat_completeness auto
termination
  by (relation "measure nat") auto

declare nat_text.simps [simp del]

definition int_text :: "int \<Rightarrow> string" where
  "int_text n = (if n < 0 then CHR ''-'' # nat_text (- n) else nat_text n)"

fun sql_text :: "json \<Rightarrow> error + string option" where
  \<comment> \<open>a parameter of a statement, bound by sqlite3 and brought to a column of type TEXT
      (or compared with one): the text, or NULL\<close>
  "sql_text JNull = Inr None"
| "sql_text (JBool b) = Inr (Some (if b then ''1'' else ''0''))"
| "sql_text (JInt n) =
     (if - (2 ^ 63) \<le> n \<and> n < 2 ^ 63 then Inr (Some (int_text n)) else Inl OverflowError)"
| "sql_text (JFloat f) = Inr (fl_text f)"
| "sql_text (JStr x) = Inr (Some x)"
| "sql_text (JStrU x) = Inl UnicodeEncodeError"
| "sql_text (JArr xs) = Inl BindingError"
| "sql_text (JObj d) = Inl BindingError"

definition rstrip_slash :: "string \<Rightarrow> string" where
  \<comment> \<open>\<open>s.rstrip("/")\<close>\<close>
  "rstrip_slash s = rev (dropWhile (\<lambda>c. c = CHR ''/'') (rev s))"

definition jsonify :: "json \<Rightarrow> response" where
  "jsonify j = \<lparr>status = 200, mimetype = ''application/json'', resp_headers = [], body = Json j\<rparr>"

definition jsonify_status :: "json \<Rightarrow> nat \<Rightarrow> response" where
  \<comment> \<open>\<open>return jsonify(...), code\<close>\<close>
  "jsonify_status j code = (jsonify j)\<lparr>status := code\<rparr>"

definition redirect :: "string \<Rightarrow> response" where
  \<comment> \<open>Flask's \<open>redirect(location)\<close>: status 302 and a Location header.\<close>
  "redirect location =
     \<lparr>status = 302, mimetype = ''text/html'', resp_headers = [(''Location'', location)],
      body = Html\<rparr>"

subsection \<open>The pixel and Flask's send-file call\<close>

definition PIXEL :: "8 word list" where
  \<comment> \<open>the 42 bytes of \<open>base64.b64decode("R0lGODlhAQABAIAAAAAAAP///yH5BAEAAAAALAAAAAABAAEAAAIBRAA7")\<close>\<close>
  "PIXEL = [71, 73, 70, 56, 57, 97, 1, 0, 1, 0, 128, 0, 0, 0, 0, 0, 255, 255, 255, 33, 249,
            4, 1, 0, 0, 0, 0, 44, 0, 0, 0, 0, 1, 0, 1, 0, 0, 2, 1, 68, 0, 59]"

datatype kwarg = KwStr string | KwDict "(string \<times> string) list"

definition send_file_params :: "string list" where
  \<comment> \<open>every parameter name \<open>flask.send_file\<close> has had, over all its releases\<close>
  "send_file_params =
     [''filename_or_fp'', ''path_or_file'', ''mimetype'', ''as_attachment'',
      ''attachment_filename'', ''download_name'', ''add_etags'', ''etag'', ''cache_timeout'',
      ''max_age'', ''conditional'', ''last_modified'']"

definition send_file :: "8 word list \<Rightarrow> (string \<times> kwarg) list \<Rightarrow> error + response" where
  \<comment> \<open>A Python call binds its keywords before the body runs: a keyword that is no
      parameter raises TypeError. Otherwise the file is sent with the given mimetype.\<close>
  "send_file fp kwargs =
     (case filter (\<lambda>(k, v). k \<notin> set send_file_params) kwargs of
        (k, v) # _ \<Rightarrow> Inl (TypeError k)
      | [] \<Rightarrow>
          Inr \<lparr>status = 200,
               mimetype = (case map_of kwargs ''mimetype'' of Some (KwStr m) \<Rightarrow> m | _ \<Rightarrow> []),
               resp_headers = [], body = Bytes fp\<rparr>)"

definition no_cache_headers :: "(string \<times> string) list" where
  "no_cache_headers =
     [(''Cache-Control'', ''no-store, no-cache, must-revalidate, max-age=0''),
      (''Pragma'', ''no-cache''),
      (''Expires'', ''0'')]"

subsection \<open>The identifier generator\<close>

text \<open>
  \<open>uuid.uuid4()\<close> reads 16 bytes from \<open>os.urandom\<close>, as a 128-bit number, and sets the
  variant and version bits; \<open>.hex\<close> prints the number with \<open>'%032x'\<close>. The 16 random
  bytes are the argument of the model.
\<close>

definition uuid4_int :: "128 word \<Rightarrow> 128 word" where
  "uuid4_int r =
     (((r AND NOT (push_bit 48 0xc000)) OR push_bit 48 0x8000)
        AND NOT (push_bit 64 0xf000)) OR push_bit 76 4"

definition hexdigit :: "int \<Rightarrow> char" where
  "hexdigit d = ''0123456789abcdef'' ! nat (d mod 16)"

function hex_str :: "int \<Rightarrow> string" where
  \<comment> \<open>the hexadecimal digits of a number that is not negative, most significant first\<close>
  "hex_str n = (if n < 16 then [hexdigit n] else hex_str (n div 16) @ [hexdigit (n mod 16)])"
  by pat_completeness auto
termination
  by (relation "measure nat") auto

declare hex_str.simps [simp del]

definition format_032x :: "int \<Rightarrow> string" where
  \<comment> \<open>\<open>'%032x' % n\<close>: lower-case hexadecimal, padded with zeros to 32 characters\<close>
  "format_032x n = replicate (32 - length (hex_str n)) CHR ''0'' @ hex_str n"

definition uuid4_hex :: "128 word \<Rightarrow> string" where
  "uuid4_hex r = format_032x (uint (uuid4_int r))"

definition new_email_id :: "128 word \<Rightarrow> string" where
  \<comment> \<open>\<open>uuid.uuid4().hex[:12]\<close>\<close>
  "new_email_id r = take 12 (uuid4_hex r)"

definition new_link_id :: "128 word \<Rightarrow> string" where
  \<comment> \<open>\<open>uuid.uuid4().hex[:10]\<close>\<close>
  "new_link_id r = take 10 (uuid4_hex r)"

subsection \<open>The SQL statements\<close>

definition select_email :: "store \<Rightarrow> string \<Rightarrow> email option" where
  \<comment> \<open>\<open>SELECT * FROM emails WHERE id = ?\<close>, \<open>fetchone()\<close>\<close>
  "select_email s eid = find (\<lambda>e. e_id e = eid) (emails s)"

definition select_link :: "store \<Rightarrow> string \<Rightarrow> link option" where
  \<comment> \<open>\<open>SELECT * FROM links WHERE id = ?\<close>, \<open>fetchone()\<close>\<close>
  "select_link s lid = find (\<lambda>l. l_id l = lid) (links s)"

definition insert_open ::
  "store \<Rightarrow> string \<Rightarrow> nat \<Rightarrow> string option \<Rightarrow> string \<Rightarrow> string \<Rightarrow> store" where
  "insert_open s eid t ip ua m =
     s\<lparr>opens := opens s @
          [\<lparr>o_id = Suc (opens_seq s), o_email_id = eid, opened_at = t, o_ip_address = ip,
            o_user_agent = ua, o_method = m\<rparr>],
       opens_seq := Suc (opens_seq s)\<rparr>"

definition insert_click ::
  "store \<Rightarrow> string \<Rightarrow> string \<Rightarrow> nat \<Rightarrow> string option \<Rightarrow> string \<Rightarrow> store" where
  "insert_click s lid eid t ip ua =
     s\<lparr>clicks := clicks s @
          [\<lparr>c_id = Suc (clicks_seq s), c_link_id = lid, c_email_id = eid, clicked_at = t,
            c_ip_address = ip, c_user_agent = ua\<rparr>],
       clicks_seq := Suc (clicks_seq s)\<rparr>"

definition insert_email :: "store \<Rightarrow> string \<Rightarrow> json \<Rightarrow> json \<Rightarrow> nat \<Rightarrow> error + store" where
  \<comment> \<open>\<open>INSERT INTO emails (id, recipient, subject) VALUES (?, ?, ?)\<close>: the parameters are
      bound in their order, then the row is checked: \<open>id TEXT PRIMARY KEY\<close> refuses a
      second row of the same id, \<open>NOT NULL\<close> a NULL\<close>
  "insert_email s eid rcp subj t =
     (case sql_text rcp of
        Inl err \<Rightarrow> Inl err
      | Inr r \<Rightarrow>
          (case sql_text subj of
             Inl err \<Rightarrow> Inl err
           | Inr sb \<Rightarrow>
               (case (r, sb) of
                  (Some r', Some sb') \<Rightarrow>
                    if eid \<in> set (map e_id (emails s)) then Inl IntegrityError
                    else Inr (s\<lparr>emails := emails s @
                                [\<lparr>e_id = eid, recipient = r', subject = sb',
                                  e_created_at = t\<rparr>]\<rparr>)
                | _ \<Rightarrow> Inl IntegrityError)))"

definition insert_link ::
  "store \<Rightarrow> string \<Rightarrow> json \<Rightarrow> json \<Rightarrow> json \<Rightarrow> nat \<Rightarrow> error + store" where
  \<comment> \<open>\<open>INSERT INTO links (id, email_id, original_url, label) VALUES (?, ?, ?, ?)\<close>; the
      label may be NULL\<close>
  "insert_link s lid eid url lbl t =
     (case sql_text eid of
        Inl err \<Rightarrow> Inl err
      | Inr e \<Rightarrow>
          (case sql_text url of
             Inl err \<Rightarrow> Inl err
           | Inr u \<Rightarrow>
               (case sql_text lbl of
                  Inl err \<Rightarrow> Inl err
                | Inr lb \<Rightarrow>
                    (case (e, u) of
                       (Some e', Some u') \<Rightarrow>
                         if lid \<in> set (map l_id (links s)) then Inl IntegrityError
                         else Inr (s\<lparr>links := links s @
                                     [\<lparr>l_id = lid, l_email_id = e', original_url = u',
                                       label = lb, l_created_at = t\<rparr>]\<rparr>)
                     | _ \<Rightarrow> Inl IntegrityError))))"

definition select_email_param :: "store \<Rightarrow> json \<Rightarrow> error + email option" where
  \<comment> \<open>\<open>SELECT * FROM emails WHERE id = ?\<close> with a parameter from the request: no row
      equals NULL\<close>
  "select_email_param s v =
     (case sql_text v of
        Inl err \<Rightarrow> Inl err
      | Inr None \<Rightarrow> Inr None
      | Inr (Some x) \<Rightarrow> Inr (select_email s x))"

subsection \<open>The tracking handlers\<close>

definition track_open :: "store \<Rightarrow> request \<Rightarrow> nat \<Rightarrow> string \<Rightarrow> store \<times> (error + response)" where
  \<comment> \<open>\<open>GET /p/<email_id>.gif\<close>; the row is committed before the response is built\<close>
  "track_open s req now email_id =
     (let s' = (case select_email s email_id of
                  Some e \<Rightarrow>
                    insert_open s email_id now (client_ip req) (user_agent_of req) ''pixel''
                | None \<Rightarrow> s)
      in (s', send_file PIXEL
                [(''mimetype'', KwStr ''image/gif''), (''headers'', KwDict no_cache_headers)]))"

definition track_click ::
  "store \<Rightarrow> request \<Rightarrow> nat \<Rightarrow> nat \<Rightarrow> string \<Rightarrow> store \<times> (error + response)" where
  \<comment> \<open>\<open>GET /l/<link_id>\<close>; each of the two inserts reads the clock\<close>
  "track_click s req now1 now2 link_id =
     (case select_link s link_id of
        None \<Rightarrow> (s, Inl (HTTPException 404))
      | Some l \<Rightarrow>
          (let s1 = insert_click s link_id (l_email_id l) now1 (client_ip req)
                      (user_agent_of req);
               s2 = insert_open s1 (l_email_id l) now2 (client_ip req) (user_agent_of req)
                      ''link''
           in (s2, Inr (redirect (original_url l)))))"

subsection \<open>The registration API\<close>

definition img_tag_of :: "string \<Rightarrow> string" where
  \<comment> \<open>the f-string of \<open>img_tag\<close>; character 0x22 is the double quote\<close>
  "img_tag_of pixel_url =
     ''<img src='' @ [CHR 0x22] @ pixel_url @ [CHR 0x22] @
     '' width='' @ [CHR 0x22] @ ''1'' @ [CHR 0x22] @
     '' height='' @ [CHR 0x22] @ ''1'' @ [CHR 0x22] @
     '' style='' @ [CHR 0x22] @ ''display:none'' @ [CHR 0x22] @
     '' alt='' @ [CHR 0x22, CHR 0x22] @ '' />''"

definition create_tracked_email ::
  "store \<Rightarrow> request \<Rightarrow> nat \<Rightarrow> 128 word \<Rightarrow> store \<times> (error + response)" where
  \<comment> \<open>\<open>POST /api/track\<close>\<close>
  "create_tracked_email s req now rnd =
     (case req_json req of
        Inl err \<Rightarrow> (s, Inl err)
      | Inr data \<Rightarrow>
     (case data_get data ''recipient'' (JStr []) of
        Inl err \<Rightarrow> (s, Inl err)
      | Inr rcp \<Rightarrow>
     (case data_get data ''subject'' (JStr []) of
        Inl err \<Rightarrow> (s, Inl err)
      | Inr subj \<Rightarrow>
         if \<not> truthy rcp \<or> \<not> truthy subj then
           (s, Inr (jsonify_status
                      (JObj [(''error'', JStr ''recipient and subject are required'')]) 400))
         else
           (let email_id = new_email_id rnd in
            case insert_email s email_id rcp subj now of
              Inl err \<Rightarrow> (s, Inl err)
            | Inr s' \<Rightarrow>
                (let base_url = rstrip_slash (host_url req);
                     pixel_url = base_url @ ''/p/'' @ email_id @ ''.gif''
                 in (s', Inr (jsonify (JObj [(''email_id'', JStr email_id),
                                             (''pixel_url'', JStr pixel_url),
                                             (''img_tag'', JStr (img_tag_of pixel_url))]))))))))"

definition create_tracked_link ::
  "store \<Rightarrow> request \<Rightarrow> nat \<Rightarrow> 128 word \<Rightarrow> store \<times> (error + response)" where
  \<comment> \<open>\<open>POST /api/link\<close>; the answer gives \<open>original_url\<close> back as it came\<close>
  "create_tracked_link s req now rnd =
     (case req_json req of
        Inl err \<Rightarrow> (s, Inl err)
      | Inr data \<Rightarrow>
     (case data_get data ''email_id'' (JStr []) of
        Inl err \<Rightarrow> (s, Inl err)
      | Inr email_id \<Rightarrow>
     (case data_get data ''url'' (JStr []) of
        Inl err \<Rightarrow> (s, Inl err)
      | Inr url \<Rightarrow>
     (case data_get data ''label'' (JStr []) of
        Inl err \<Rightarrow> (s, Inl err)
      | Inr lbl \<Rightarrow>
         if \<not> truthy email_id \<or> \<not> truthy url then
           (s, Inr (jsonify_status (JObj [(''error'', JStr ''email_id and url are required'')])
                      400))
         else
           (let link_id = new_link_id rnd in
            case select_email_param s email_id of
              Inl err \<Rightarrow> (s, Inl err)
            | Inr None \<Rightarrow>
                (s, Inr (jsonify_status (JObj [(''error'', JStr ''email not found'')]) 404))
            | Inr (Some e) \<Rightarrow>
                (case insert_link s link_id email_id url lbl now of
                   Inl err \<Rightarrow> (s, Inl err)
                 | Inr s' \<Rightarrow>
                     (let base_url = rstrip_slash (host_url req);
                          tracked_url = base_url @ ''/l/'' @ link_id
                      in (s', Inr (jsonify (JObj [(''link_id'', JStr link_id),
                                                  (''tracked_url'', JStr tracked_url),
                                                  (''original_url'', url)]))))))))))"

subsection \<open>The reporting API\<close>

text \<open>
  The query of \<open>list_emails\<close>, clause by clause: two left joins, the grouping on the
  email's id, the four aggregates and the ordering. Where SQL leaves an order open (rows
  of equal \<open>created_at\<close>) the model has the one of a stable sort, reversed; no theorem
  depends on it.
\<close>

definition left_join :: "'a list \<Rightarrow> 'b list \<Rightarrow> ('a \<Rightarrow> 'b \<Rightarrow> bool) \<Rightarrow> ('a \<times> 'b option) list" where
  "left_join xs ys on =
     concat (map (\<lambda>x. case filter (on x) ys of
                         [] \<Rightarrow> [(x, None)]
                       | m # ms \<Rightarrow> map (\<lambda>y. (x, Some y)) (m # ms)) xs)"

fun group_by :: "('r \<Rightarrow> 'k) \<Rightarrow> 'r list \<Rightarrow> ('r \<times> 'r list) list" where
  \<comment> \<open>each group with its first row, which supplies the bare columns \<open>e.*\<close>\<close>
  "group_by key [] = []"
| "group_by key (r # rs) =
     (r, r # filter (\<lambda>x. key x = key r) rs) # group_by key (filter (\<lambda>x. key x \<noteq> key r) rs)"

definition count_distinct :: "'a option list \<Rightarrow> nat" where
  \<comment> \<open>\<open>COUNT(DISTINCT x)\<close>: the distinct values that are not NULL\<close>
  "count_distinct vs = length (remdups (List.map_filter id vs))"

definition max_agg :: "nat option list \<Rightarrow> nat option" where
  \<comment> \<open>\<open>MAX(x)\<close>: NULL when no value is not NULL\<close>
  "max_agg vs = (case List.map_filter id vs of [] \<Rightarrow> None | x # xs \<Rightarrow> Some (fold max xs x))"

record summary =
  s_email :: email
  open_count :: nat
  last_opened :: "nat option"
  click_count :: nat
  last_clicked :: "nat option"

type_synonym joined_row = "(email \<times> open_row option) \<times> click option"

definition joined :: "store \<Rightarrow> joined_row list" where
  \<comment> \<open>\<open>FROM emails e LEFT JOIN opens o ON e.id = o.email_id LEFT JOIN clicks c ON e.id = c.email_id\<close>\<close>
  "joined s =
     left_join (left_join (emails s) (opens s) (\<lambda>e r. e_id e = o_email_id r)) (clicks s)
       (\<lambda>eo c. e_id (fst eo) = c_email_id c)"

definition aggregate :: "joined_row \<times> joined_row list \<Rightarrow> summary" where
  "aggregate g =
     \<lparr>s_email = fst (fst (fst g)),
      open_count = count_distinct (map (\<lambda>r. map_option o_id (snd (fst r))) (snd g)),
      last_opened = max_agg (map (\<lambda>r. map_option opened_at (snd (fst r))) (snd g)),
      click_count = count_distinct (map (\<lambda>r. map_option c_id (snd r)) (snd g)),
      last_clicked = max_agg (map (\<lambda>r. map_option clicked_at (snd r)) (snd g))\<rparr>"

definition list_emails_query :: "store \<Rightarrow> summary list" where
  "list_emails_query s =
     rev (sort_key (\<lambda>r. e_created_at (s_email r))
            (map aggregate (group_by (\<lambda>r. e_id (fst (fst r))) (joined s))))"

definition json_opt_nat :: "nat option \<Rightarrow> json" where
  "json_opt_nat v = (case v of None \<Rightarrow> JNull | Some n \<Rightarrow> JInt (int n))"

definition json_opt_str :: "string option \<Rightarrow> json" where
  "json_opt_str v = (case v of None \<Rightarrow> JNull | Some x \<Rightarrow> JStr x)"

definition summary_json :: "summary \<Rightarrow> json" where
  "summary_json r =
     JObj [(''id'', JStr (e_id (s_email r))),
           (''recipient'', JStr (recipient (s_email r))),
           (''subject'', JStr (subject (s_email r))),
           (''created_at'', JInt (int (e_created_at (s_email r)))),
           (''open_count'', JInt (int (open_count r))),
           (''last_opened'', json_opt_nat (last_opened r)),
           (''click_count'', JInt (int (click_count r))),
           (''last_clicked'', json_opt_nat (last_clicked r))]"

definition list_emails :: "store \<Rightarrow> store \<times> (error + response)" where
  \<comment> \<open>\<open>GET /api/emails\<close>\<close>
  "list_emails s = (s, Inr (jsonify (JArr (map summary_json (list_emails_query s)))))"

definition detail_opens :: "store \<Rightarrow> string \<Rightarrow> open_row list" where
  \<comment> \<open>\<open>SELECT * FROM opens WHERE email_id = ? ORDER BY opened_at DESC\<close>\<close>
  "detail_opens s eid = rev (sort_key opened_at (filter (\<lambda>r. o_email_id r = eid) (opens s)))"

definition detail_links :: "store \<Rightarrow> string \<Rightarrow> link list" where
  \<comment> \<open>\<open>SELECT * FROM links WHERE email_id = ? ORDER BY created_at\<close>\<close>
  "detail_links s eid = sort_key l_created_at (filter (\<lambda>l. l_email_id l = eid) (links s))"

definition detail_clicks :: "store \<Rightarrow> string \<Rightarrow> (click \<times> link) list" where
  \<comment> \<open>\<open>SELECT c.*, l.original_url, l.label FROM clicks c JOIN links l ON c.link_id = l.id
      WHERE c.email_id = ? ORDER BY c.clicked_at DESC\<close>\<close>
  "detail_clicks s eid =
     rev (sort_key (\<lambda>cl. clicked_at (fst cl))
            (filter (\<lambda>cl. c_email_id (fst cl) = eid)
               (concat (map (\<lambda>c. map (\<lambda>l. (c, l)) (filter (\<lambda>l. c_link_id c = l_id l) (links s)))
                          (clicks s)))))"

definition open_json :: "open_row \<Rightarrow> json" where
  "open_json r =
     JObj [(''opened_at'', JInt (int (opened_at r))), (''ip_address'', json_opt_str (o_ip_address r)),
           (''user_agent'', JStr (o_user_agent r)), (''method'', JStr (o_method r))]"

definition link_json :: "link \<Rightarrow> json" where
  "link_json l =
     JObj [(''id'', JStr (l_id l)), (''original_url'', JStr (original_url l)),
           (''label'', json_opt_str (label l))]"

definition click_json :: "click \<times> link \<Rightarrow> json" where
  "click_json cl =
     JObj [(''clicked_at'', JInt (int (clicked_at (fst cl)))),
           (''ip_address'', json_opt_str (c_ip_address (fst cl))),
           (''original_url'', JStr (original_url (snd cl))), (''label'', json_opt_str (label (snd cl)))]"

definition get_email_detail :: "store \<Rightarrow> string \<Rightarrow> store \<times> (error + response)" where
  \<comment> \<open>\<open>GET /api/emails/<email_id>\<close>\<close>
  "get_email_detail s email_id =
     (s, Inr (jsonify (JObj [(''opens'', JArr (map open_json (detail_opens s email_id))),
                             (''links'', JArr (map link_json (detail_links s email_id))),
                             (''clicks'', JArr (map click_json (detail_clicks s email_id)))])))"

definition delete_email :: "store \<Rightarrow> string \<Rightarrow> store \<times> (error + response)" where
  \<comment> \<open>\<open>DELETE /api/emails/<email_id>\<close>: four deletes, one commit\<close>
  "delete_email s email_id =
     (let s1 = s\<lparr>clicks := filter (\<lambda>c. c_email_id c \<noteq> email_id) (clicks s)\<rparr>;
          s2 = s1\<lparr>opens := filter (\<lambda>r. o_email_id r \<noteq> email_id) (opens s1)\<rparr>;
          s3 = s2\<lparr>links := filter (\<lambda>l. l_email_id l \<noteq> email_id) (links s2)\<rparr>;
          s4 = s3\<lparr>emails := filter (\<lambda>e. e_id e \<noteq> email_id) (emails s3)\<rparr>
      in (s4, Inr (jsonify (JObj [(''success'', JBool True)]))))"

subsection \<open>Runs of the server\<close>

datatype call =
    TrackOpen request nat string
  | TrackClick request nat nat string
  | CreateEmail request nat "128 word"
  | CreateLink request nat "128 word"
  | ListEmails
  | GetDetail string
  | DeleteEmail string

fun handle :: "store \<Rightarrow> call \<Rightarrow> store \<times> (error + response)" where
  "handle s (TrackOpen req now eid) = track_open s req now eid"
| "handle s (TrackClick req now1 now2 lid) = track_click s req now1 now2 lid"
| "handle s (CreateEmail req now rnd) = create_tracked_email s req now rnd"
| "handle s (CreateLink req now rnd) = create_tracked_link s req now rnd"
| "handle s ListEmails = list_emails s"
| "handle s (GetDetail eid) = get_email_detail s eid"
| "handle s (DeleteEmail eid) = delete_email s eid"

fun run :: "store \<Rightarrow> call list \<Rightarrow> store" where
  "run s [] = s"
| "run s (c # cs) = run (fst (handle s c)) cs"

subsection \<open>Row counts and the constraints of the tables\<close>

definition opens_of :: "store \<Rightarrow> string \<Rightarrow> open_row list" where
  "opens_of s eid = filter (\<lambda>r. o_email_id r = eid) (opens s)"

definition clicks_of :: "store \<Rightarrow> string \<Rightarrow> click list" where
  "clicks_of s eid = filter (\<lambda>c. c_email_id c = eid) (clicks s)"

definition email_ids :: "store \<Rightarrow> string list" where
  "email_ids s = map e_id (emails s)"

definition link_ids :: "store \<Rightarrow> string list" where
  "link_ids s = map l_id (links s)"

definition reported :: "store \<Rightarrow> string \<Rightarrow> (nat \<times> nat) list" where
  \<comment> \<open>the open and click counts that \<open>list_emails\<close> shows for an email id\<close>
  "reported s eid =
     map (\<lambda>r. (open_count r, click_count r))
       (filter (\<lambda>r. e_id (s_email r) = eid) (list_emails_query s))"

definition pk_ok :: "store \<Rightarrow> bool" where
  \<comment> \<open>what SQLite keeps by itself: the primary keys of a table differ, and an
      \<open>AUTOINCREMENT\<close> key is at most the table's counter\<close>
  "pk_ok s \<longleftrightarrow>
     distinct (map e_id (emails s)) \<and> distinct (map l_id (links s)) \<and>
     distinct (map o_id (opens s)) \<and> distinct (map c_id (clicks s)) \<and>
     list_all (\<lambda>r. o_id r \<le> opens_seq s) (opens s) \<and>
     list_all (\<lambda>c. c_id c \<le> clicks_seq s) (clicks s)"

definition ref_ok :: "store \<Rightarrow> bool" where
  \<comment> \<open>what the handlers keep: an open and a link belong to an email of the table, a
      click to a link of the table and to that link's email\<close>
  "ref_ok s \<longleftrightarrow>
     list_all (\<lambda>r. o_email_id r \<in> set (map e_id (emails s))) (opens s) \<and>
     list_all (\<lambda>l. l_email_id l \<in> set (map e_id (emails s))) (links s) \<and>
     list_all (\<lambda>c. list_ex (\<lambda>l. l_id l = c_link_id c \<and> l_email_id l = c_email_id c) (links s))
       (clicks s)"

definition summarize :: "store \<Rightarrow> email \<Rightarrow> summary" where
  \<comment> \<open>the row of \<open>list_emails\<close> for an email, computed from the tables directly\<close>
  "summarize s e =
     \<lparr>s_email = e,
      open_count = length (opens_of s (e_id e)),
      last_opened = (case map opened_at (opens_of s (e_id e)) of
                       [] \<Rightarrow> None | t # ts \<Rightarrow> Some (fold max ts t)),
      click_count = length (clicks_of s (e_id e)),
      last_clicked = (case map clicked_at (clicks_of s (e_id e)) of
                        [] \<Rightarrow> None | t # ts \<Rightarrow> Some (fold max ts t))\<rparr>"

subsection \<open>Auxiliary definitions of the proofs, and a sample run\<close>

text \<open>
  \<open>block s e\<close> is the part of the join of \<open>list_emails\<close> that belongs to the email
  \<open>e\<close>. The sample run is the example of the specification: an email is registered and
  its pixel fetched twice, then a link is registered and followed. The random bytes of
  both registrations are zero, which makes the two identifiers strings of zeros. The
  other requests are bodies that a client can post to the two registration routes: the
  JSON text \<open>null\<close>, an object that lacks a field or has an empty one, and objects
  whose fields are a list, numbers, a string with a lone surrogate, or \<open>null\<close>.
\<close>

definition opt_col :: "'a list \<Rightarrow> 'a option list" where
  "opt_col xs = (if xs = [] then [None] else map Some xs)"

definition block :: "store \<Rightarrow> email \<Rightarrow> joined_row list" where
  "block s e =
     concat (map (\<lambda>r. map (\<lambda>c. ((e, r), c)) (opt_col (clicks_of s (e_id e))))
               (opt_col (opens_of s (e_id e))))"

definition hexchars :: "char set" where
  "hexchars = set ''0123456789abcdef''"

definition browser_req :: request where
  "browser_req =
     \<lparr>req_headers = [(''User-Agent'', ''Mozilla/5.0''), (''X-Forwarded-For'', ''203.0.113.7'')],
      remote_addr = Some ''10.0.0.1'', host_url = ''https://t.example/'', req_json = Inl (HTTPException 415)\<rparr>"

definition email_req :: request where
  "email_req = browser_req\<lparr>req_json := Inr (JObj [(''recipient'', JStr ''a@x.com''),
                                            (''subject'', JStr ''Hi'')])\<rparr>"

definition link_req :: request where
  "link_req = browser_req\<lparr>req_json := Inr (JObj [(''email_id'', JStr ''000000000000''),
                                           (''url'', JStr ''https://x.com'')])\<rparr>"

definition example_calls :: "call list" where
  "example_calls =
     [CreateEmail email_req 1 0, TrackOpen browser_req 2 ''000000000000'',
      TrackOpen browser_req 3 ''000000000000'', CreateLink link_req 4 0,
      TrackClick browser_req 5 6 ''0000000000'']"

definition example_store :: store where
  "example_store =
     \<lparr>emails = [\<lparr>e_id = ''000000000000'', recipient = ''a@x.com'', subject = ''Hi'',
                  e_created_at = 1\<rparr>],
      opens = [\<lparr>o_id = 1, o_email_id = ''000000000000'', opened_at = 2,
                 o_ip_address = Some ''203.0.113.7'', o_user_agent = ''Mozilla/5.0'',
                 o_method = ''pixel''\<rparr>,
               \<lparr>o_id = 2, o_email_id = ''000000000000'', opened_at = 3,
                 o_ip_address = Some ''203.0.113.7'', o_user_agent = ''Mozilla/5.0'',
                 o_method = ''pixel''\<rparr>,
               \<lparr>o_id = 3, o_email_id = ''000000000000'', opened_at = 6,
                 o_ip_address = Some ''203.0.113.7'', o_user_agent = ''Mozilla/5.0'',
                 o_method = ''link''\<rparr>],
      links = [\<lparr>l_id = ''0000000000'', l_email_id = ''000000000000'',
                 original_url = ''https://x.com'', label = Some [], l_created_at = 4\<rparr>],
      clicks = [\<lparr>c_id = 1, c_link_id = ''0000000000'', c_email_id = ''000000000000'',
                  clicked_at = 5, c_ip_address = Some ''203.0.113.7'',
                  c_user_agent = ''Mozilla/5.0''\<rparr>],
      opens_seq = 3, clicks_seq = 1\<rparr>"

definition example_link :: link where
  "example_link = \<lparr>l_id = ''0000000000'', l_email_id = ''000000000000'',
                    original_url = ''https://x.com'', label = Some [], l_created_at = 4\<rparr>"

definition example_click :: click where
  "example_click = \<lparr>c_id = 1, c_link_id = ''0000000000'', c_email_id = ''000000000000'',
                  clicked_at = 5, c_ip_address = Some ''203.0.113.7'',
                  c_user_agent = ''Mozilla/5.0''\<rparr>"









section \<open>The query of \<open>list_emails\<close> computes the row counts\<close>

lemma left_join_opt_col:
  "left_join xs ys on = concat (map (\<lambda>x. map (\<lambda>y. (x, y)) (opt_col (filter (on x) ys))) xs)"
  unfolding left_join_def opt_col_def
  by (rule arg_cong [where f = concat], rule map_cong) (auto split: list.splits)

lemma concat_map_concat:
  "concat (map g (concat xss)) = concat (map (\<lambda>xs. concat (map g xs)) xss)"
  by (induction xss) auto

lemma joined_blocks: "joined s = concat (map (block s) (emails s))"
  unfolding joined_def left_join_opt_col [of "emails s"]
  unfolding left_join_opt_col concat_map_concat block_def opens_of_def clicks_of_def
  by (simp add: comp_def eq_commute [of "e_id _"] cong: map_cong)

lemma opt_col_nonempty: "opt_col xs \<noteq> []"
  by (simp add: opt_col_def)

lemma block_nonempty: "block s e \<noteq> []"
  using opt_col_nonempty [of "opens_of s (e_id e)"] opt_col_nonempty [of "clicks_of s (e_id e)"]
  by (cases "opt_col (opens_of s (e_id e))"; cases "opt_col (clicks_of s (e_id e))")
     (auto simp: block_def)

lemma block_key: "r \<in> set (block s e) \<Longrightarrow> fst (fst r) = e"
  by (auto simp: block_def)

lemma group_by_concat_blocks:
  assumes "distinct (map k xs)"
    and "\<forall>x\<in>set xs. blk x \<noteq> [] \<and> (\<forall>r\<in>set (blk x). key r = k x)"
  shows "group_by key (concat (map blk xs)) = map (\<lambda>x. (hd (blk x), blk x)) xs"
  using assms
proof (induction xs)
  case Nil
  then show ?case by simp
next
  case (Cons x xs)
  then obtain r rs where blk: "blk x = r # rs"
    by (cases "blk x") auto
  have kr: "key r = k x" and krs: "\<forall>y\<in>set rs. key y = k x"
    using Cons.prems(2) blk by auto
  have rest: "\<forall>y\<in>set (concat (map blk xs)). key y \<noteq> k x"
    using Cons.prems by (auto simp: image_iff)
  have f1: "filter (\<lambda>y. key y = k x) (rs @ concat (map blk xs)) = rs"
    using krs rest by (simp add: filter_empty_conv)
  have f2: "filter (\<lambda>y. key y \<noteq> k x) (rs @ concat (map blk xs)) = concat (map blk xs)"
    using krs rest by (simp add: filter_empty_conv)
  have ih: "group_by key (concat (map blk xs)) = map (\<lambda>x. (hd (blk x), blk x)) xs"
    using Cons by simp
  show ?case
    using f1 f2 ih by (simp add: blk kr del: filter_append)
qed

lemma set_map_filter_id: "set (List.map_filter id xs) = {x. Some x \<in> set xs}"
  by (induction xs) (auto simp: List.map_filter_simps split: option.splits)

lemma block_open_col:
  "set (map (\<lambda>r. snd (fst r)) (block s e)) = set (opt_col (opens_of s (e_id e)))"
  using opt_col_nonempty [of "clicks_of s (e_id e)"]
  by (cases "opt_col (clicks_of s (e_id e))") (auto simp: block_def image_iff)

lemma block_click_col:
  "set (map snd (block s e)) = set (opt_col (clicks_of s (e_id e)))"
  using opt_col_nonempty [of "opens_of s (e_id e)"]
  by (cases "opt_col (opens_of s (e_id e))") (auto simp: block_def image_iff)

lemma somes_opt_col: "{x. Some x \<in> set (opt_col xs)} = set xs"
  by (auto simp: opt_col_def)

lemma count_distinct_col:
  assumes "set col = set (opt_col xs)" and "distinct (map f xs)"
  shows "count_distinct (map (map_option f) col) = length xs"
proof -
  have "set (List.map_filter id (map (map_option f) col)) = f ` set xs"
  proof -
    have "{y. Some y \<in> map_option f ` set col} = f ` {x. Some x \<in> set col}"
      by (auto simp: image_iff map_option_case split: option.splits)
    then show ?thesis
      by (simp add: set_map_filter_id assms(1) somes_opt_col)
  qed
  then have "card (set (List.map_filter id (map (map_option f) col))) = length xs"
    using distinct_card [OF assms(2)] by simp
  then show ?thesis
    by (simp add: count_distinct_def length_remdups_card_conv)
qed

lemma max_agg_col:
  assumes "set col = set (opt_col xs)"
  shows "max_agg (map (map_option f) col) =
         (case map f xs of [] \<Rightarrow> None | t # ts \<Rightarrow> Some (fold max ts t))"
proof -
  have S: "set (List.map_filter id (map (map_option f) col)) = set (map f xs)"
  proof -
    have "{y. Some y \<in> map_option f ` set col} = f ` {x. Some x \<in> set col}"
      by (auto simp: image_iff map_option_case split: option.splits)
    then show ?thesis
      by (simp add: set_map_filter_id assms(1) somes_opt_col)
  qed
  show ?thesis
  proof (cases "map f xs")
    case Nil
    with S show ?thesis by (simp add: max_agg_def)
  next
    case (Cons t ts)
    with S obtain u us where U: "List.map_filter id (map (map_option f) col) = u # us"
      by (cases "List.map_filter id (map (map_option f) col)") auto
    have "fold max us u = Max (set (u # us))"
      by (rule Max.set_eq_fold [symmetric])
    also have "\<dots> = Max (set (t # ts))"
      using S U Cons by simp
    also have "\<dots> = fold max ts t"
      by (rule Max.set_eq_fold)
    finally show ?thesis
      by (simp add: max_agg_def U Cons)
  qed
qed

lemma distinct_filter_map: "distinct (map f xs) \<Longrightarrow> distinct (map f (filter P xs))"
  by (induction xs) auto

lemma aggregate_block:
  assumes "pk_ok s"
  shows "aggregate (hd (block s e), block s e) = summarize s e"
proof -
  have e: "fst (fst (hd (block s e))) = e"
    using block_nonempty [of s e] block_key [of "hd (block s e)" s e] by simp
  have d1: "distinct (map o_id (opens_of s (e_id e)))"
    and d2: "distinct (map c_id (clicks_of s (e_id e)))"
    using assms by (simp_all add: pk_ok_def opens_of_def clicks_of_def distinct_filter_map)
  have c1: "set (map (\<lambda>r. snd (fst r)) (block s e)) = set (opt_col (opens_of s (e_id e)))"
    by (rule block_open_col)
  have c2: "set (map snd (block s e)) = set (opt_col (clicks_of s (e_id e)))"
    by (rule block_click_col)
  have m1: "map (\<lambda>r. map_option f (snd (fst r))) (block s e) =
            map (map_option f) (map (\<lambda>r. snd (fst r)) (block s e))" for f :: "open_row \<Rightarrow> nat"
    by simp
  have m2: "map (\<lambda>r. map_option f (snd r)) (block s e) =
            map (map_option f) (map snd (block s e))" for f :: "click \<Rightarrow> nat"
    by simp
  show ?thesis
    unfolding aggregate_def summarize_def fst_conv snd_conv m1 m2
    by (simp only: e count_distinct_col [OF c1 d1] count_distinct_col [OF c2 d2]
          max_agg_col [OF c1] max_agg_col [OF c2])
qed

lemma grouped_summaries:
  assumes "pk_ok s"
  shows "map aggregate (group_by (\<lambda>r. e_id (fst (fst r))) (joined s)) =
         map (summarize s) (emails s)"
proof -
  have "group_by (\<lambda>r. e_id (fst (fst r))) (concat (map (block s) (emails s))) =
        map (\<lambda>e. (hd (block s e), block s e)) (emails s)"
    using assms
    by (intro group_by_concat_blocks [where k = e_id])
       (auto simp: pk_ok_def block_nonempty dest: block_key)
  then show ?thesis
    by (simp add: joined_blocks aggregate_block [OF assms] comp_def)
qed

lemma list_emails_query_eq:
  "pk_ok s \<Longrightarrow>
   list_emails_query s =
     rev (sort_key (\<lambda>r. e_created_at (s_email r)) (map (summarize s) (emails s)))"
  by (simp add: list_emails_query_def grouped_summaries)

section \<open>The key constraints hold in every run\<close>

lemma find_distinct_key:
  "distinct (map k xs) \<Longrightarrow> x \<in> set xs \<Longrightarrow> find (\<lambda>y. k y = k x) xs = Some x"
  by (induction xs) (auto simp: image_iff)

lemma filter_distinct_key:
  "distinct (map k xs) \<Longrightarrow> x \<in> set xs \<Longrightarrow> filter (\<lambda>y. k y = k x) xs = [x]"
  by (induction xs) (auto simp: image_iff filter_empty_conv)

lemma select_email_None: "select_email s eid = None \<longleftrightarrow> eid \<notin> set (email_ids s)"
  by (auto simp: select_email_def email_ids_def find_None_iff)

lemma select_email_Some: "select_email s eid = Some e \<Longrightarrow> e \<in> set (emails s) \<and> e_id e = eid"
  by (auto simp: select_email_def find_Some_iff)

lemma select_link_None: "select_link s lid = None \<longleftrightarrow> lid \<notin> set (link_ids s)"
  by (auto simp: select_link_def link_ids_def find_None_iff)

lemma select_link_Some: "select_link s lid = Some l \<Longrightarrow> l \<in> set (links s) \<and> l_id l = lid"
  by (auto simp: select_link_def find_Some_iff)

lemma select_link_distinct:
  "distinct (map l_id (links s)) \<Longrightarrow> l \<in> set (links s) \<Longrightarrow> select_link s (l_id l) = Some l"
  unfolding select_link_def by (rule find_distinct_key)

lemma pk_ok_insert_open: "pk_ok s \<Longrightarrow> pk_ok (insert_open s eid t ip ua m)"
  by (fastforce simp: pk_ok_def insert_open_def list_all_iff)

lemma pk_ok_insert_click: "pk_ok s \<Longrightarrow> pk_ok (insert_click s lid eid t ip ua)"
  by (fastforce simp: pk_ok_def insert_click_def list_all_iff)

lemma pk_ok_insert_email: "pk_ok s \<Longrightarrow> insert_email s eid r sb t = Inr s' \<Longrightarrow> pk_ok s'"
  by (auto simp: pk_ok_def insert_email_def split: if_splits sum.splits option.splits)

lemma pk_ok_insert_link: "pk_ok s \<Longrightarrow> insert_link s lid eid u lb t = Inr s' \<Longrightarrow> pk_ok s'"
  by (auto simp: pk_ok_def insert_link_def split: if_splits sum.splits option.splits)

lemma pk_ok_delete: "pk_ok s \<Longrightarrow> pk_ok (fst (delete_email s eid))"
  by (auto simp: pk_ok_def delete_email_def Let_def distinct_filter_map list_all_iff)

lemma pk_ok_handle: "pk_ok s \<Longrightarrow> pk_ok (fst (handle s c))"
proof (cases c)
  case (TrackOpen req now eid)
  then show "pk_ok s \<Longrightarrow> ?thesis"
    by (auto simp: track_open_def pk_ok_insert_open split: option.splits)
next
  case (TrackClick req n1 n2 lid)
  then show "pk_ok s \<Longrightarrow> ?thesis"
    by (auto simp: track_click_def Let_def pk_ok_insert_open pk_ok_insert_click
          split: option.splits)
next
  case (CreateEmail req now rnd)
  then show "pk_ok s \<Longrightarrow> ?thesis"
    by (auto simp: create_tracked_email_def Let_def split: sum.splits if_splits
          dest: pk_ok_insert_email)
next
  case (CreateLink req now rnd)
  then show "pk_ok s \<Longrightarrow> ?thesis"
    by (auto simp: create_tracked_link_def Let_def split: sum.splits option.splits if_splits
          dest: pk_ok_insert_link)
next
  case ListEmails
  then show "pk_ok s \<Longrightarrow> ?thesis" by (simp add: list_emails_def)
next
  case (GetDetail eid)
  then show "pk_ok s \<Longrightarrow> ?thesis" by (simp add: get_email_detail_def)
next
  case (DeleteEmail eid)
  then show "pk_ok s \<Longrightarrow> ?thesis" by (simp add: pk_ok_delete)
qed

lemma pk_ok_run: "pk_ok s \<Longrightarrow> pk_ok (run s cs)"
  by (induction cs arbitrary: s) (auto simp: pk_ok_handle)

lemma pk_ok_empty: "pk_ok empty_store"
  by (simp add: pk_ok_def empty_store_def)

lemma reported_eq:
  assumes "pk_ok s"
  shows "reported s eid =
           (if eid \<in> set (email_ids s) then [(length (opens_of s eid), length (clicks_of s eid))]
            else [])"
proof -
  have q: "filter (\<lambda>r. e_id (s_email r) = eid) (list_emails_query s) =
           rev (sort_key (\<lambda>r. e_created_at (s_email r))
                  (map (summarize s) (filter (\<lambda>e. e_id e = eid) (emails s))))"
    by (simp add: list_emails_query_eq [OF assms] rev_filter [symmetric] filter_sort
          filter_map comp_def summarize_def)
  show ?thesis
  proof (cases "eid \<in> set (email_ids s)")
    case False
    then have "filter (\<lambda>e. e_id e = eid) (emails s) = []"
      by (auto simp: filter_empty_conv email_ids_def)
    with False show ?thesis by (simp add: reported_def q)
  next
    case True
    then obtain e where e: "e \<in> set (emails s)" "e_id e = eid"
      by (auto simp: email_ids_def)
    have "filter (\<lambda>y. e_id y = e_id e) (emails s) = [e]"
      using assms e(1) by (intro filter_distinct_key) (simp add: pk_ok_def)
    with True e show ?thesis
      by (simp add: reported_def q summarize_def)
  qed
qed

section \<open>The references hold in every run\<close>

lemma ref_ok_track_open: "ref_ok s \<Longrightarrow> ref_ok (fst (track_open s req now eid))"
  by (auto simp: track_open_def ref_ok_def insert_open_def list_all_iff
        split: option.splits dest!: select_email_Some)

lemma ref_ok_track_click: "ref_ok s \<Longrightarrow> ref_ok (fst (track_click s req n1 n2 lid))"
  by (auto simp: track_click_def ref_ok_def insert_open_def insert_click_def Let_def
        list_all_iff list_ex_iff split: option.splits dest!: select_link_Some)

lemma insert_email_Inr:
  "insert_email s eid rcp subj t = Inr s' \<Longrightarrow>
   \<exists>r sb. s' = s\<lparr>emails := emails s @
                    [\<lparr>e_id = eid, recipient = r, subject = sb, e_created_at = t\<rparr>]\<rparr>"
  by (auto simp: insert_email_def split: sum.splits option.splits if_splits)

lemma insert_link_Inr:
  "insert_link s lid eid url lbl t = Inr s' \<Longrightarrow>
   \<exists>e u lb. sql_text eid = Inr (Some e) \<and>
     s' = s\<lparr>links := links s @
               [\<lparr>l_id = lid, l_email_id = e, original_url = u, label = lb,
                 l_created_at = t\<rparr>]\<rparr>"
  by (auto simp: insert_link_def split: sum.splits option.splits if_splits)

lemma ref_ok_create_email: "ref_ok s \<Longrightarrow> ref_ok (fst (create_tracked_email s req now rnd))"
  by (auto simp: create_tracked_email_def ref_ok_def Let_def list_all_iff
        split: sum.splits if_splits dest!: insert_email_Inr)

lemma ref_ok_create_link: "ref_ok s \<Longrightarrow> ref_ok (fst (create_tracked_link s req now rnd))"
  by (auto simp: create_tracked_link_def ref_ok_def Let_def list_all_iff select_email_param_def
        list_ex_iff split: sum.splits if_splits option.splits
        dest!: select_email_Some insert_link_Inr intro: rev_image_eqI)

lemma ref_ok_delete: "ref_ok s \<Longrightarrow> ref_ok (fst (delete_email s eid))"
  by (fastforce simp: delete_email_def ref_ok_def Let_def list_all_iff list_ex_iff)

lemma ref_ok_handle: "ref_ok s \<Longrightarrow> ref_ok (fst (handle s c))"
  by (cases c)
     (simp_all add: ref_ok_track_open ref_ok_track_click ref_ok_create_email
        ref_ok_create_link ref_ok_delete list_emails_def get_email_detail_def)

lemma ref_ok_run: "ref_ok s \<Longrightarrow> ref_ok (run s cs)"
  by (induction cs arbitrary: s) (auto simp: ref_ok_handle)

lemma ref_ok_empty: "ref_ok empty_store"
  by (simp add: ref_ok_def empty_store_def)

lemma track_open_unknown_email:
  "eid \<notin> set (email_ids s) \<Longrightarrow> track_open s req now eid = (s, Inl (TypeError ''headers''))"
  by (simp add: track_open_def select_email_None [THEN iffD2] send_file_def send_file_params_def)

lemma track_open_known_email:
  "eid \<in> set (email_ids s) \<Longrightarrow>
   track_open s req now eid =
     (s\<lparr>opens := opens s @
          [\<lparr>o_id = Suc (opens_seq s), o_email_id = eid, opened_at = now,
            o_ip_address = client_ip req, o_user_agent = user_agent_of req,
            o_method = ''pixel''\<rparr>],
        opens_seq := Suc (opens_seq s)\<rparr>,
      Inl (TypeError ''headers''))"
  by (cases "select_email s eid")
     (simp_all add: track_open_def select_email_None insert_open_def send_file_def
        send_file_params_def)

section \<open>The sample run\<close>

lemma replicate_12: "replicate 12 c = [c, c, c, c, c, c, c, c, c, c, c, c]"
  by (simp add: numeral_eq_Suc)

lemma uuid4_hex_zero: "uuid4_hex 0 = ''00000000000040008000000000000000''"
  by (simp add: uuid4_hex_def uuid4_int_def format_032x_def hexdigit_def replicate_12 hex_str.simps)

lemma new_email_id_zero: "new_email_id 0 = ''000000000000''"
  by (simp add: new_email_id_def uuid4_hex_zero)

lemma new_link_id_zero: "new_link_id 0 = ''0000000000''"
  by (simp add: new_link_id_def uuid4_hex_zero)

lemma run_example: "run empty_store example_calls = example_store"
  by (simp add: example_calls_def example_store_def empty_store_def email_req_def link_req_def
        browser_req_def create_tracked_email_def create_tracked_link_def track_open_def
        track_click_def insert_email_def insert_link_def insert_open_def insert_click_def
        select_email_def select_link_def select_email_param_def client_ip_def user_agent_of_def
        new_email_id_zero new_link_id_zero Let_def)

lemma pk_ok_example: "pk_ok example_store"
  by (simp add: pk_ok_def example_store_def)

lemma ref_ok_example: "ref_ok example_store"
  by (simp add: ref_ok_def example_store_def)

lemma list_example:
  "list_emails_query example_store =
     [\<lparr>s_email = \<lparr>e_id = ''000000000000'', recipient = ''a@x.com'', subject = ''Hi'',
                   e_created_at = 1\<rparr>,
       open_count = 3, last_opened = Some 6, click_count = 1, last_clicked = Some 5\<rparr>]"
  by (simp add: list_emails_query_def joined_def left_join_def example_store_def aggregate_def
        count_distinct_def max_agg_def List.map_filter_simps)

section \<open>The identifier generator\<close>

lemma div_16_less: "n < 16 * (t::int) \<Longrightarrow> n div 16 < t"
  by arith

lemma hexdigit_hexchars: "hexdigit d \<in> hexchars"
proof -
  have "nat (d mod 16) < length ''0123456789abcdef''"
    by simp
  then show ?thesis
    unfolding hexdigit_def hexchars_def by (rule nth_mem)
qed

lemma hex_str_hexchars: "set (hex_str n) \<subseteq> hexchars"
proof (induction n rule: hex_str.induct)
  case (1 n)
  show ?case
  proof (cases "n < 16")
    case True
    then show ?thesis by (subst hex_str.simps) (simp add: hexdigit_hexchars)
  next
    case False
    with 1 show ?thesis by (subst hex_str.simps) (simp add: hexdigit_hexchars)
  qed
qed

lemma hex_str_length: "0 \<le> n \<Longrightarrow> n < 16 ^ k \<Longrightarrow> 0 < k \<Longrightarrow> length (hex_str n) \<le> k"
proof (induction n arbitrary: k rule: hex_str.induct)
  case (1 n)
  show ?case
  proof (cases "n < 16")
    case True
    with 1 show ?thesis by (subst hex_str.simps) simp
  next
    case False
    from 1(4) obtain j where k: "k = Suc j" by (cases k) auto
    have "j \<noteq> 0"
    proof
      assume "j = 0"
      with 1(3) k False show False by simp
    qed
    moreover have "n div 16 < 16 ^ j"
    proof -
      have "n < 16 * (16 ^ j :: int)" using 1(3) k by simp
      then show ?thesis by (rule div_16_less)
    qed
    moreover have "0 \<le> n div 16" using 1(2) by simp
    ultimately have "length (hex_str (n div 16)) \<le> j"
      using 1(1) [OF False] by simp
    with False k show ?thesis by (subst hex_str.simps) simp
  qed
qed

lemma uuid4_hex_length: "length (uuid4_hex r) = 32"
proof -
  have "uint (uuid4_int r) < 2 ^ 128"
    using uint_lt2p [of "uuid4_int r"] by simp
  then have "uint (uuid4_int r) < 16 ^ 32" by simp
  then have "length (hex_str (uint (uuid4_int r))) \<le> 32"
    by (intro hex_str_length) simp_all
  then show ?thesis by (simp add: uuid4_hex_def format_032x_def)
qed

lemma uuid4_hex_hexchars: "set (uuid4_hex r) \<subseteq> hexchars"
  using hex_str_hexchars [of "uint (uuid4_int r)"]
  by (auto simp: uuid4_hex_def format_032x_def hexchars_def)

section \<open>The claims: tracking, listing and deleting\<close>

text \<open>
  Claim C1. For a link of the store, the link handler appends exactly one click row for
  that link and exactly one open row of method \<open>link\<close> for the link's email, leaves the
  emails and links as they are, and answers with a redirect (302) to the link's
  \<open>original_url\<close>; the open count and the click count that \<open>list_emails\<close> shows for the
  link's email both grow by one.
\<close>

theorem track_click_known_link:
  assumes "pk_ok s" and "l \<in> set (links s)"
  shows "track_click s req now1 now2 (l_id l) =
           (s\<lparr>clicks := clicks s @
                [\<lparr>c_id = Suc (clicks_seq s), c_link_id = l_id l, c_email_id = l_email_id l,
                  clicked_at = now1, c_ip_address = client_ip req,
                  c_user_agent = user_agent_of req\<rparr>],
              clicks_seq := Suc (clicks_seq s),
              opens := opens s @
                [\<lparr>o_id = Suc (opens_seq s), o_email_id = l_email_id l, opened_at = now2,
                  o_ip_address = client_ip req, o_user_agent = user_agent_of req,
                  o_method = ''link''\<rparr>],
              opens_seq := Suc (opens_seq s)\<rparr>,
            Inr \<lparr>status = 302, mimetype = ''text/html'',
                 resp_headers = [(''Location'', original_url l)], body = Html\<rparr>) \<and>
         reported (fst (track_click s req now1 now2 (l_id l))) (l_email_id l) =
           map (\<lambda>(a, b). (Suc a, Suc b)) (reported s (l_email_id l))"
proof -
  have sel: "select_link s (l_id l) = Some l"
    using assms by (intro select_link_distinct) (simp_all add: pk_ok_def)
  have eq: "track_click s req now1 now2 (l_id l) =
           (s\<lparr>clicks := clicks s @
                [\<lparr>c_id = Suc (clicks_seq s), c_link_id = l_id l, c_email_id = l_email_id l,
                  clicked_at = now1, c_ip_address = client_ip req,
                  c_user_agent = user_agent_of req\<rparr>],
              clicks_seq := Suc (clicks_seq s),
              opens := opens s @
                [\<lparr>o_id = Suc (opens_seq s), o_email_id = l_email_id l, opened_at = now2,
                  o_ip_address = client_ip req, o_user_agent = user_agent_of req,
                  o_method = ''link''\<rparr>],
              opens_seq := Suc (opens_seq s)\<rparr>,
            Inr \<lparr>status = 302, mimetype = ''text/html'',
                 resp_headers = [(''Location'', original_url l)], body = Html\<rparr>)"
    by (simp add: track_click_def sel Let_def insert_click_def insert_open_def redirect_def)
  have pk': "pk_ok (fst (track_click s req now1 now2 (l_id l)))"
    using pk_ok_handle [OF assms(1), of "TrackClick req now1 now2 (l_id l)"] by simp
  have "reported (fst (track_click s req now1 now2 (l_id l))) (l_email_id l) =
           map (\<lambda>(a, b). (Suc a, Suc b)) (reported s (l_email_id l))"
    unfolding reported_eq [OF pk'] reported_eq [OF assms(1)]
    by (simp add: eq email_ids_def opens_of_def clicks_of_def)
  with eq show ?thesis by simp
qed

text \<open>
  Claim C1 at the sample store: following its link takes the counts of its email from
  (3, 1) to (4, 2) and redirects to the link's URL.
\<close>

theorem track_click_known_link_witness:
  "pk_ok example_store \<and> example_link \<in> set (links example_store) \<and>
   snd (track_click example_store browser_req 7 8 ''0000000000'') =
     Inr \<lparr>status = 302, mimetype = ''text/html'',
          resp_headers = [(''Location'', ''https://x.com'')], body = Html\<rparr> \<and>
   reported example_store ''000000000000'' = [(3, 1)] \<and>
   reported (fst (track_click example_store browser_req 7 8 ''0000000000'')) ''000000000000'' =
     [(4, 2)]"
proof -
  have m: "example_link \<in> set (links example_store)"
    by (simp add: example_link_def example_store_def)
  have r: "reported example_store ''000000000000'' = [(3, 1)]"
    by (simp add: reported_def list_example)
  have i: "l_id example_link = ''0000000000''" "l_email_id example_link = ''000000000000''"
    "original_url example_link = ''https://x.com''"
    by (simp_all add: example_link_def)
  note t = track_click_known_link [OF pk_ok_example m, of browser_req 7 8, unfolded i]
  have a: "snd (track_click example_store browser_req 7 8 ''0000000000'') =
     Inr \<lparr>status = 302, mimetype = ''text/html'',
          resp_headers = [(''Location'', ''https://x.com'')], body = Html\<rparr>"
    using t [THEN conjunct1] by simp
  have b: "reported (fst (track_click example_store browser_req 7 8 ''0000000000''))
             ''000000000000'' = [(4, 2)]"
    using t [THEN conjunct2] r by (simp add: numeral_2_eq_2)
  from pk_ok_example m a r b show ?thesis by blast
qed

lemma max_case_eq:
  "(case map f xs of [] \<Rightarrow> None | t # ts \<Rightarrow> Some (fold max ts t)) =
   (if xs = [] then None else Some (Max (f ` set xs)))"
proof (cases xs)
  case Nil
  then show ?thesis by simp
next
  case (Cons x ys)
  have "fold max (map f ys) (f x) = Max (set (f x # map f ys))"
    by (rule Max.set_eq_fold [symmetric])
  with Cons show ?thesis by simp
qed

lemma query_row_summarize:
  assumes "pk_ok s" and "r \<in> set (list_emails_query s)"
  shows "r = summarize s (s_email r)"
proof -
  from assms obtain e where "r = summarize s e"
    by (auto simp: list_emails_query_eq)
  then show ?thesis by (simp add: summarize_def)
qed

text \<open>
  Claim C3. For every store that satisfies the key constraints of its tables, the rows of
  \<open>list_emails\<close> are the emails of the store, one row each, in descending order of
  \<open>created_at\<close>; the open count of a row is the number of open rows of that email and its
  click count the number of click rows of that email, every row counted; an email with
  no open and no click has the counts 0 and 0. The response has status 200 and is the
  JSON array of these rows in this order, each an object of \<open>id\<close>, \<open>recipient\<close>,
  \<open>subject\<close>, \<open>created_at\<close>, \<open>open_count\<close> (the number of the email's open rows),
  \<open>last_opened\<close> (the latest \<open>opened_at\<close> of them, null if there is none),
  \<open>click_count\<close> and \<open>last_clicked\<close> (the same of the email's click rows).
\<close>

theorem list_emails_counts:
  assumes "pk_ok s"
  shows "mset (map s_email (list_emails_query s)) = mset (emails s) \<and>
     sorted (rev (map (\<lambda>r. e_created_at (s_email r)) (list_emails_query s))) \<and>
     (\<forall>r\<in>set (list_emails_query s).
        open_count r = length (opens_of s (e_id (s_email r))) \<and>
        click_count r = length (clicks_of s (e_id (s_email r)))) \<and>
     (\<forall>e\<in>set (emails s). opens_of s (e_id e) = [] \<and> clicks_of s (e_id e) = [] \<longrightarrow>
        \<lparr>s_email = e, open_count = 0, last_opened = None, click_count = 0,
         last_clicked = None\<rparr> \<in> set (list_emails_query s)) \<and>
     list_emails s =
       (s, Inr \<lparr>status = 200, mimetype = ''application/json'', resp_headers = [],
            body = Json (JArr (map
              (\<lambda>e. JObj
                 [(''id'', JStr (e_id e)),
                  (''recipient'', JStr (recipient e)),
                  (''subject'', JStr (subject e)),
                  (''created_at'', JInt (int (e_created_at e))),
                  (''open_count'', JInt (int (length (opens_of s (e_id e))))),
                  (''last_opened'',
                   if opens_of s (e_id e) = [] then JNull
                   else JInt (int (Max (opened_at ` set (opens_of s (e_id e)))))),
                  (''click_count'', JInt (int (length (clicks_of s (e_id e))))),
                  (''last_clicked'',
                   if clicks_of s (e_id e) = [] then JNull
                   else JInt (int (Max (clicked_at ` set (clicks_of s (e_id e))))))])
              (map s_email (list_emails_query s))))\<rparr>)"
proof -
  note q = list_emails_query_eq [OF assms]
  have se: "map s_email (map (summarize s) xs) = xs" for xs
    by (induction xs) (simp_all add: summarize_def)
  have a: "mset (map s_email (list_emails_query s)) = mset (emails s)"
  proof -
    have "mset (map s_email (list_emails_query s)) =
          image_mset s_email (mset (list_emails_query s))"
      by simp
    also have "mset (list_emails_query s) = mset (map (summarize s) (emails s))"
      by (simp add: q)
    also have "image_mset s_email (mset (map (summarize s) (emails s))) =
               mset (map s_email (map (summarize s) (emails s)))"
      by (rule mset_map [symmetric])
    finally show ?thesis by (simp only: se)
  qed
  have b: "sorted (rev (map (\<lambda>r. e_created_at (s_email r)) (list_emails_query s)))"
    by (simp add: q rev_map)
  have c: "open_count r = length (opens_of s (e_id (s_email r))) \<and>
           click_count r = length (clicks_of s (e_id (s_email r)))"
    if "r \<in> set (list_emails_query s)" for r
  proof -
    from that obtain e where "r = summarize s e"
      by (auto simp: q)
    then show ?thesis by (simp add: summarize_def)
  qed
  have d: "\<lparr>s_email = e, open_count = 0, last_opened = None, click_count = 0,
            last_clicked = None\<rparr> \<in> set (list_emails_query s)"
    if "e \<in> set (emails s)" "opens_of s (e_id e) = []" "clicks_of s (e_id e) = []" for e
  proof -
    have "summarize s e \<in> set (list_emails_query s)"
      using that(1) by (simp add: q)
    then show ?thesis using that(2,3) by (simp add: summarize_def)
  qed
  have j: "summary_json (summarize s e) =
      JObj [(''id'', JStr (e_id e)),
            (''recipient'', JStr (recipient e)),
            (''subject'', JStr (subject e)),
            (''created_at'', JInt (int (e_created_at e))),
            (''open_count'', JInt (int (length (opens_of s (e_id e))))),
            (''last_opened'',
             if opens_of s (e_id e) = [] then JNull
             else JInt (int (Max (opened_at ` set (opens_of s (e_id e)))))),
            (''click_count'', JInt (int (length (clicks_of s (e_id e))))),
            (''last_clicked'',
             if clicks_of s (e_id e) = [] then JNull
             else JInt (int (Max (clicked_at ` set (clicks_of s (e_id e))))))]" for e
    by (simp add: summary_json_def summarize_def json_opt_nat_def max_case_eq)
  have "map summary_json (list_emails_query s) =
        map (\<lambda>r. summary_json (summarize s (s_email r))) (list_emails_query s)"
    by (rule map_cong [OF refl]) (simp add: query_row_summarize [OF assms, symmetric])
  then have e: "list_emails s =
       (s, Inr \<lparr>status = 200, mimetype = ''application/json'', resp_headers = [],
            body = Json (JArr (map
              (\<lambda>e. JObj
                 [(''id'', JStr (e_id e)),
                  (''recipient'', JStr (recipient e)),
                  (''subject'', JStr (subject e)),
                  (''created_at'', JInt (int (e_created_at e))),
                  (''open_count'', JInt (int (length (opens_of s (e_id e))))),
                  (''last_opened'',
                   if opens_of s (e_id e) = [] then JNull
                   else JInt (int (Max (opened_at ` set (opens_of s (e_id e)))))),
                  (''click_count'', JInt (int (length (clicks_of s (e_id e))))),
                  (''last_clicked'',
                   if clicks_of s (e_id e) = [] then JNull
                   else JInt (int (Max (clicked_at ` set (clicks_of s (e_id e))))))])
              (map s_email (list_emails_query s))))\<rparr>)"
    by (simp add: list_emails_def jsonify_def j comp_def)
  from a b c d e show ?thesis by blast
qed

text \<open>
  Claim C3 at the sample store: one email, three opens (two by the same viewer's pixel,
  one by the link), one click, and the JSON array that is returned for it.
\<close>

theorem list_emails_counts_witness:
  "pk_ok example_store \<and>
   list_emails_query example_store =
     [\<lparr>s_email = \<lparr>e_id = ''000000000000'', recipient = ''a@x.com'', subject = ''Hi'',
                   e_created_at = 1\<rparr>,
       open_count = 3, last_opened = Some 6, click_count = 1, last_clicked = Some 5\<rparr>] \<and>
   mset (map s_email (list_emails_query example_store)) = mset (emails example_store) \<and>
   length (opens_of example_store ''000000000000'') = 3 \<and>
   length (clicks_of example_store ''000000000000'') = 1 \<and>
   list_emails example_store =
     (example_store,
      Inr \<lparr>status = 200, mimetype = ''application/json'', resp_headers = [],
           body = Json (JArr
             [JObj [(''id'', JStr ''000000000000''),
                    (''recipient'', JStr ''a@x.com''),
                    (''subject'', JStr ''Hi''),
                    (''created_at'', JInt 1),
                    (''open_count'', JInt 3),
                    (''last_opened'', JInt 6),
                    (''click_count'', JInt 1),
                    (''last_clicked'', JInt 5)]])\<rparr>)"
proof -
  note t = list_emails_counts [OF pk_ok_example]
  have a: "mset (map s_email (list_emails_query example_store)) = mset (emails example_store)"
    using t by blast
  have "\<forall>r\<in>set (list_emails_query example_store).
          open_count r = length (opens_of example_store (e_id (s_email r))) \<and>
          click_count r = length (clicks_of example_store (e_id (s_email r)))"
    using t by blast
  then have b: "length (opens_of example_store ''000000000000'') = 3"
    and c: "length (clicks_of example_store ''000000000000'') = 1"
    by (simp_all add: list_example)
  have o: "opens_of example_store ''000000000000'' = opens example_store"
    and k: "clicks_of example_store ''000000000000'' = clicks example_store"
    by (simp_all add: opens_of_def clicks_of_def example_store_def)
  have m: "Max (opened_at ` set (opens example_store)) = 6"
    "Max (clicked_at ` set (clicks example_store)) = 5"
    "opens example_store \<noteq> []" "clicks example_store \<noteq> []"
    by (simp_all add: example_store_def)
  have d: "list_emails example_store =
     (example_store,
      Inr \<lparr>status = 200, mimetype = ''application/json'', resp_headers = [],
           body = Json (JArr
             [JObj [(''id'', JStr ''000000000000''),
                    (''recipient'', JStr ''a@x.com''),
                    (''subject'', JStr ''Hi''),
                    (''created_at'', JInt 1),
                    (''open_count'', JInt 3),
                    (''last_opened'', JInt 6),
                    (''click_count'', JInt 1),
                    (''last_clicked'', JInt 5)]])\<rparr>)"
    using t [THEN conjunct2, THEN conjunct2, THEN conjunct2, THEN conjunct2] b c
    by (simp add: list_example o k m)
  from pk_ok_example list_example a b c d show ?thesis by blast
qed

text \<open>
  Claim C4. For every email id, in the store or not, the delete handler reports success
  and removes the email row and every link, open and click row of that email id, and
  keeps every other row; the detail handler then returns three empty lists for that id.
  In a store whose rows all refer to emails of the store (every store of a run is one),
  deleting an id that is not there changes nothing.
\<close>

theorem delete_email_cascade:
  "snd (delete_email s eid) = Inr (jsonify (JObj [(''success'', JBool True)])) \<and>
   fst (delete_email s eid) =
     s\<lparr>clicks := filter (\<lambda>c. c_email_id c \<noteq> eid) (clicks s),
       opens := filter (\<lambda>r. o_email_id r \<noteq> eid) (opens s),
       links := filter (\<lambda>l. l_email_id l \<noteq> eid) (links s),
       emails := filter (\<lambda>e. e_id e \<noteq> eid) (emails s)\<rparr> \<and>
   get_email_detail (fst (delete_email s eid)) eid =
     (fst (delete_email s eid),
      Inr (jsonify (JObj [(''opens'', JArr []), (''links'', JArr []), (''clicks'', JArr [])]))) \<and>
   (ref_ok s \<and> eid \<notin> set (email_ids s) \<longrightarrow> fst (delete_email s eid) = s)"
proof -
  have a: "fst (delete_email s eid) =
     s\<lparr>clicks := filter (\<lambda>c. c_email_id c \<noteq> eid) (clicks s),
       opens := filter (\<lambda>r. o_email_id r \<noteq> eid) (opens s),
       links := filter (\<lambda>l. l_email_id l \<noteq> eid) (links s),
       emails := filter (\<lambda>e. e_id e \<noteq> eid) (emails s)\<rparr>"
    by (simp add: delete_email_def Let_def)
  have b: "snd (delete_email s eid) = Inr (jsonify (JObj [(''success'', JBool True)]))"
    by (simp add: delete_email_def Let_def)
  have c: "get_email_detail (fst (delete_email s eid)) eid =
     (fst (delete_email s eid),
      Inr (jsonify (JObj [(''opens'', JArr []), (''links'', JArr []), (''clicks'', JArr [])])))"
    unfolding a
    by (simp add: get_email_detail_def detail_opens_def detail_links_def detail_clicks_def
          filter_empty_conv)
  have d: "fst (delete_email s eid) = s" if "ref_ok s" "eid \<notin> set (email_ids s)"
  proof -
    have ids: "\<forall>e\<in>set (emails s). e_id e \<noteq> eid"
      using that(2) by (auto simp: email_ids_def)
    have o: "\<forall>r\<in>set (opens s). o_email_id r \<noteq> eid"
      and l: "\<forall>l\<in>set (links s). l_email_id l \<noteq> eid"
      using that by (auto simp: ref_ok_def email_ids_def list_all_iff)
    have "\<forall>c\<in>set (clicks s). \<exists>l\<in>set (links s). l_email_id l = c_email_id c"
      using that(1) by (auto simp: ref_ok_def list_all_iff list_ex_iff)
    with l have c: "\<forall>c\<in>set (clicks s). c_email_id c \<noteq> eid"
      by metis
    have "filter (\<lambda>c. c_email_id c \<noteq> eid) (clicks s) = clicks s"
      "filter (\<lambda>r. o_email_id r \<noteq> eid) (opens s) = opens s"
      "filter (\<lambda>l. l_email_id l \<noteq> eid) (links s) = links s"
      "filter (\<lambda>e. e_id e \<noteq> eid) (emails s) = emails s"
      using ids o l c by (simp_all add: filter_id_conv)
    then show ?thesis by (simp add: a)
  qed
  from a b c d show ?thesis by blast
qed

text \<open>
  Claim C4 at the sample store: deleting an unknown id leaves it as it is, and deleting
  its email empties the four tables.
\<close>

theorem delete_email_cascade_witness:
  "ref_ok example_store \<and> ''ffffffffffff'' \<notin> set (email_ids example_store) \<and>
   fst (delete_email example_store ''ffffffffffff'') = example_store \<and>
   fst (delete_email example_store ''000000000000'') =
     \<lparr>emails = [], opens = [], links = [], clicks = [], opens_seq = 3, clicks_seq = 1\<rparr> \<and>
   get_email_detail (fst (delete_email example_store ''000000000000'')) ''000000000000'' =
     (fst (delete_email example_store ''000000000000''),
      Inr (jsonify (JObj [(''opens'', JArr []), (''links'', JArr []), (''clicks'', JArr [])])))"
proof -
  have n: "''ffffffffffff'' \<notin> set (email_ids example_store)"
    by (simp add: email_ids_def example_store_def)
  have d: "fst (delete_email example_store ''000000000000'') =
     \<lparr>emails = [], opens = [], links = [], clicks = [], opens_seq = 3, clicks_seq = 1\<rparr>"
    by (simp add: delete_email_def example_store_def Let_def)
  note a = delete_email_cascade [of example_store "''ffffffffffff''"]
  have 1: "fst (delete_email example_store ''ffffffffffff'') = example_store"
    using a ref_ok_example n by blast
  note b = delete_email_cascade [of example_store "''000000000000''"]
  have 3: "get_email_detail (fst (delete_email example_store ''000000000000'')) ''000000000000'' =
     (fst (delete_email example_store ''000000000000''),
      Inr (jsonify (JObj [(''opens'', JArr []), (''links'', JArr []), (''clicks'', JArr [])])))"
    using b by blast
  from ref_ok_example n 1 d 3 show ?thesis by blast
qed

text \<open>
  Claim C6. For a link id that is not in the links table, the link handler raises
  \<open>abort(404)\<close>: no redirect, and the store it leaves is the store it found, so no click
  and no open is written.
\<close>

theorem track_click_unknown_link:
  "lid \<notin> set (link_ids s) \<Longrightarrow> track_click s req now1 now2 lid = (s, Inl (HTTPException 404))"
  by (simp add: track_click_def select_link_None [THEN iffD2])

text \<open>
  Claim C6 at the sample store and a link id that it does not hold.
\<close>

theorem track_click_unknown_link_witness:
  "''ffffffffff'' \<notin> set (link_ids example_store) \<and>
   track_click example_store browser_req 7 8 ''ffffffffff'' =
     (example_store, Inl (HTTPException 404))"
proof -
  have h: "''ffffffffff'' \<notin> set (link_ids example_store)"
    by (simp add: link_ids_def example_store_def)
  from h track_click_unknown_link [OF h] show ?thesis by (rule conjI)
qed

text \<open>
  Claim C10. In every store reached from the empty store by any sequence of requests,
  the link that a click's \<open>link_id\<close> names is in the links table, and every link of that
  id has the click's \<open>email_id\<close>: a click is never attributed to another email than its
  link's.
\<close>

theorem click_attribution:
  assumes "c \<in> set (clicks (run empty_store cs))"
  shows "(\<exists>l\<in>set (links (run empty_store cs)). l_id l = c_link_id c) \<and>
         (\<forall>l\<in>set (links (run empty_store cs)). l_id l = c_link_id c \<longrightarrow>
            l_email_id l = c_email_id c)"
proof -
  let ?s = "run empty_store cs"
  have r: "ref_ok ?s" and p: "pk_ok ?s"
    by (simp_all add: ref_ok_run ref_ok_empty pk_ok_run pk_ok_empty)
  from r assms obtain l where l: "l \<in> set (links ?s)" "l_id l = c_link_id c"
      "l_email_id l = c_email_id c"
    by (auto simp: ref_ok_def list_all_iff list_ex_iff)
  have "l' = l" if "l' \<in> set (links ?s)" "l_id l' = c_link_id c" for l'
  proof -
    from p have "inj_on l_id (set (links ?s))"
      by (simp add: pk_ok_def distinct_map)
    with that l show ?thesis by (simp add: inj_on_def)
  qed
  with l show ?thesis by blast
qed

text \<open>
  Claim C10 at the sample run: its click is in the reached store, with its link.
\<close>

theorem click_attribution_witness:
  "example_click \<in> set (clicks (run empty_store example_calls)) \<and>
   example_link \<in> set (links (run empty_store example_calls)) \<and>
   l_id example_link = c_link_id example_click \<and>
   l_email_id example_link = c_email_id example_click"
proof -
  have m: "example_click \<in> set (clicks (run empty_store example_calls))"
    by (simp add: run_example example_store_def example_click_def)
  have l: "example_link \<in> set (links (run empty_store example_calls))"
    by (simp add: run_example example_store_def example_link_def)
  have i: "l_id example_link = c_link_id example_click"
    by (simp add: example_link_def example_click_def)
  from click_attribution [OF m] l i
  have "l_email_id example_link = c_email_id example_click"
    by blast
  with m l i show ?thesis by blast
qed

section \<open>The claims: the pixel response, registration and identifiers\<close>

lemma example_ids:
  "email_ids example_store = [''000000000000'']" "link_ids example_store = [''0000000000'']"
  "email_ids empty_store = []" "link_ids empty_store = []"
  by (simp_all add: email_ids_def link_ids_def example_store_def empty_store_def)






text \<open>
  Claim C2, at the sample store and its email. The pixel handler inserts one open row of
  method \<open>pixel\<close> for the email, as the claim says (lemma \<open>track_open_known_email\<close> has it
  for every email of every store), and commits it. Its response is not the image: the
  call of \<open>send_file\<close> passes the keyword \<open>headers\<close>, which \<open>flask.send_file\<close> does not
  have, so the call raises TypeError and the request ends in a server error.
\<close>

theorem track_open_existing_email_raises:
  "track_open example_store browser_req 7 ''000000000000'' =
     (example_store
        \<lparr>opens := opens example_store @
           [\<lparr>o_id = 4, o_email_id = ''000000000000'', opened_at = 7,
             o_ip_address = Some ''203.0.113.7'', o_user_agent = ''Mozilla/5.0'',
             o_method = ''pixel''\<rparr>],
         opens_seq := 4\<rparr>,
      Inl (TypeError ''headers''))"
proof -
  have "''000000000000'' \<in> set (email_ids example_store)"
    by (simp add: email_ids_def example_store_def)
  then show ?thesis
    by (simp add: track_open_known_email)
       (simp add: example_store_def client_ip_def user_agent_of_def browser_req_def)
qed

text \<open>
  Claim C5, at the sample store and an id that it does not hold. The store is left as it
  is, as the claim says (lemma \<open>track_open_unknown_email\<close> has it for every unknown id of
  every store). The response is not the image: the same call of \<open>send_file\<close> with the
  keyword \<open>headers\<close> raises TypeError.
\<close>

theorem track_open_unknown_email_raises:
  "track_open example_store browser_req 7 ''ffffffffffff'' =
     (example_store, Inl (TypeError ''headers''))"
proof -
  have "''ffffffffffff'' \<notin> set (email_ids example_store)"
    by (simp add: email_ids_def example_store_def)
  then show ?thesis by (rule track_open_unknown_email)
qed







text \<open>
  Claim C9, as amended. An email id is a string of exactly 12 hexadecimal characters and a
  link id one of exactly 10. The generator does not look at the table: when the string is
  a primary key of the target table already, the registration persists nothing (and does
  not answer with success).
\<close>

theorem generated_ids:
  "length (new_email_id rnd) = 12 \<and> set (new_email_id rnd) \<subseteq> hexchars \<and>
   length (new_link_id rnd) = 10 \<and> set (new_link_id rnd) \<subseteq> hexchars \<and>
   (new_email_id rnd \<in> set (email_ids s) \<longrightarrow>
      fst (create_tracked_email s req now rnd) = s \<and>
      (\<forall>resp. snd (create_tracked_email s req now rnd) = Inr resp \<longrightarrow> status resp = 400)) \<and>
   (new_link_id rnd \<in> set (link_ids s) \<longrightarrow>
      fst (create_tracked_link s req now rnd) = s \<and>
      (\<forall>resp. snd (create_tracked_link s req now rnd) = Inr resp \<longrightarrow>
         status resp = 400 \<or> status resp = 404))"
proof -
  have a: "length (new_email_id rnd) = 12" "length (new_link_id rnd) = 10"
    by (simp_all add: new_email_id_def new_link_id_def uuid4_hex_length)
  have b: "set (new_email_id rnd) \<subseteq> hexchars" "set (new_link_id rnd) \<subseteq> hexchars"
    using uuid4_hex_hexchars [of rnd] set_take_subset [of 12 "uuid4_hex rnd"]
      set_take_subset [of 10 "uuid4_hex rnd"]
    by (auto simp: new_email_id_def new_link_id_def)
  have c: "fst (create_tracked_email s req now rnd) = s \<and>
      (\<forall>resp. snd (create_tracked_email s req now rnd) = Inr resp \<longrightarrow> status resp = 400)"
    if "new_email_id rnd \<in> set (email_ids s)"
    using that
    by (auto simp: create_tracked_email_def Let_def insert_email_def email_ids_def jsonify_def
          jsonify_status_def split: sum.splits option.splits)
  have d: "fst (create_tracked_link s req now rnd) = s \<and>
      (\<forall>resp. snd (create_tracked_link s req now rnd) = Inr resp \<longrightarrow>
         status resp = 400 \<or> status resp = 404)"
    if "new_link_id rnd \<in> set (link_ids s)"
    using that
    by (auto simp: create_tracked_link_def Let_def insert_link_def link_ids_def jsonify_def
          jsonify_status_def split: sum.splits option.splits)
  from a b c d show ?thesis by blast
qed

text \<open>
  Claim C9 as amended, at the random bytes 0 and the sample store, which holds both
  generated ids.
\<close>

theorem generated_ids_witness:
  "new_email_id 0 = ''000000000000'' \<and> length (new_email_id 0) = 12 \<and>
   new_email_id 0 \<in> set (email_ids example_store) \<and>
   fst (create_tracked_email example_store email_req 7 0) = example_store \<and>
   new_link_id 0 = ''0000000000'' \<and> length (new_link_id 0) = 10 \<and>
   new_link_id 0 \<in> set (link_ids example_store) \<and>
   fst (create_tracked_link example_store link_req 7 0) = example_store"
proof -
  note t = generated_ids [of 0 example_store email_req 7]
  note t' = generated_ids [of 0 example_store link_req 7]
  have e: "new_email_id 0 \<in> set (email_ids example_store)"
    by (simp add: new_email_id_zero example_ids)
  have l: "new_link_id 0 \<in> set (link_ids example_store)"
    by (simp add: new_link_id_zero example_ids)
  have a: "length (new_email_id 0) = 12" "length (new_link_id 0) = 10"
    using t by blast+
  have b: "fst (create_tracked_email example_store email_req 7 0) = example_store"
    using t e by blast
  have c: "fst (create_tracked_link example_store link_req 7 0) = example_store"
    using t' l by blast
  from new_email_id_zero new_link_id_zero e l a b c show ?thesis by blast
qed

text \<open>
  Claim C9 as stated fails: in the store of the sample run the random bytes 0 generate an
  email id and a link id that are primary keys of their tables.
\<close>

theorem generated_id_already_present:
  "example_store = run empty_store example_calls \<and>
   new_email_id 0 \<in> set (map e_id (emails example_store)) \<and>
   new_link_id 0 \<in> set (map l_id (links example_store))"
  by (simp add: run_example new_email_id_zero new_link_id_zero example_store_def)

end
